theory Spec2Isabelle
  imports Main
begin

section \<open>Characters and C++ string helpers\<close>

text \<open>
  The shell works on \<open>std::string\<close> values, modelled as \<open>string\<close> (lists of 8-bit
  characters). The three characters the code names by escape sequences are written by
  their codes.
\<close>

abbreviation dquote :: char where "dquote \<equiv> CHR 0x22"
abbreviation backslash :: char where "backslash \<equiv> CHR 0x5C"
abbreviation tab :: char where "tab \<equiv> CHR 0x09"

text \<open>The trim set of \<open>Input.cpp\<close>: \<open>const char * ws = " \t"\<close>.\<close>

definition ws :: string where
  "ws = [CHR '' '', tab]"

text \<open>
  \<open>std::string::find_first_not_of\<close> and \<open>find_last_not_of\<close> return an index or
  \<open>npos\<close>; \<open>npos\<close> is \<open>None\<close> here.
\<close>

fun find_first_not_of :: "string \<Rightarrow> string \<Rightarrow> nat option" where
  "find_first_not_of [] cs = None"
| "find_first_not_of (c # s) cs =
     (if c \<notin> set cs then Some 0 else map_option Suc (find_first_not_of s cs))"

fun find_last_not_of :: "string \<Rightarrow> string \<Rightarrow> nat option" where
  "find_last_not_of [] cs = None"
| "find_last_not_of (c # s) cs =
     (case find_last_not_of s cs of
        Some i \<Rightarrow> Some (Suc i)
      | None \<Rightarrow> if c \<notin> set cs then Some 0 else None)"

text \<open>
  \<open>trim\<close> (Input.cpp):
  \<^verbatim>\<open>s = s.erase(s.find_last_not_of(ws) + 1); s = s.erase(0, s.find_first_not_of(ws));\<close>
  \<open>npos + 1\<close> wraps to \<open>0\<close> in \<open>size_t\<close>, so the first erase clears a string of
  nothing but trim characters; \<open>erase(0, npos)\<close> removes everything. \<open>erase(pos)\<close>
  keeps the first \<open>pos\<close> characters and \<open>erase(0, n)\<close> drops the first \<open>n\<close>; both
  positions are within the string (lemma \<open>find_last_not_of_less\<close> below), so neither
  call throws.
\<close>

definition trim :: "string \<Rightarrow> string" where
  "trim inp =
     (let s1 = take (case find_last_not_of inp ws of None \<Rightarrow> 0 | Some i \<Rightarrow> i + 1) inp;
          s2 = drop (case find_first_not_of s1 ws of None \<Rightarrow> length s1 | Some i \<Rightarrow> i) s1
      in s2)"

section \<open>Processes and jobs (Input.h)\<close>

record Process =
  PID :: int
  PGID :: int
  stopped :: bool
  completed :: bool
  hasPipe :: bool
  args :: "string list"

text \<open>The default member initialisers of \<open>struct Process\<close>.\<close>

definition new_Process :: Process where
  "new_Process = \<lparr>PID = -1, PGID = -1, stopped = False, completed = False,
                   hasPipe = False, args = []\<rparr>"

record Input =
  JID :: int
  foreground :: bool
  status :: string
  shellInput :: string
  processes :: "Process list"
  fd_STDIN :: string
  fd_STDOUT :: string
  type_STDOUT :: string
  fd_STDERR :: string
  type_STDERR :: string

text \<open>
  \<open>Input::isStopped\<close> and \<open>Input::isCompleted\<close>: a loop over the processes that returns
  \<open>false\<close> at the first process failing the test, \<open>true\<close> after the loop.
\<close>

fun isStopped_loop :: "Process list \<Rightarrow> bool" where
  "isStopped_loop [] = True"
| "isStopped_loop (p # ps) =
     (if \<not> stopped p \<and> \<not> completed p then False else isStopped_loop ps)"

fun isCompleted_loop :: "Process list \<Rightarrow> bool" where
  "isCompleted_loop [] = True"
| "isCompleted_loop (p # ps) =
     (if \<not> completed p then False else isCompleted_loop ps)"

definition isStopped :: "Input \<Rightarrow> bool" where
  "isStopped job = isStopped_loop (processes job)"

definition isCompleted :: "Input \<Rightarrow> bool" where
  "isCompleted job = isCompleted_loop (processes job)"

section \<open>Tokenizer and quoting (Input.cpp)\<close>

text \<open>
  \<open>while(ss >> a) argv.push_back(a)\<close> on a \<open>stringstream\<close>: formatted extraction skips
  leading whitespace (\<open>isspace\<close> in the C locale: space, \<open>\t \n \v \f \r\<close>) and reads up
  to the next whitespace character. \<open>split_words cur s\<close> scans \<open>s\<close> with the word read so
  far in \<open>cur\<close>.
\<close>

definition isspace :: "char \<Rightarrow> bool" where
  "isspace c = (c \<in> set [CHR '' '', tab, CHR 0x0A, CHR 0x0B, CHR 0x0C, CHR 0x0D])"

fun split_words :: "string \<Rightarrow> string \<Rightarrow> string list" where
  "split_words cur [] = (if cur = [] then [] else [cur])"
| "split_words cur (c # s) =
     (if isspace c then (if cur = [] then split_words [] s else cur # split_words [] s)
      else split_words (cur @ [c]) s)"

definition stream_words :: "string \<Rightarrow> string list" where
  "stream_words s = split_words [] s"

text \<open>
  \<open>hasQuotes\<close>: true at the first \<open>"\<close> that is at index 0 or not preceded by a backslash.
  The \<open>_from\<close> function is the loop for indices \<open>i > 0\<close>, with \<open>input[i-1]\<close> as \<open>prev\<close>.
\<close>

fun hasQuotes_from :: "char \<Rightarrow> string \<Rightarrow> bool" where
  "hasQuotes_from prev [] = False"
| "hasQuotes_from prev (c # s) =
     (if c = dquote \<and> prev \<noteq> backslash then True else hasQuotes_from c s)"

fun hasQuotes :: "string \<Rightarrow> bool" where
  "hasQuotes [] = False"
| "hasQuotes (c # s) = (if c = dquote then True else hasQuotes_from c s)"

text \<open>\<open>pos_of_first_quote\<close>: the index of that quote, \<open>0\<close> when there is none.\<close>

fun pos_of_first_quote_from :: "nat \<Rightarrow> char \<Rightarrow> string \<Rightarrow> nat" where
  "pos_of_first_quote_from i prev [] = 0"
| "pos_of_first_quote_from i prev (c # s) =
     (if c = dquote \<and> prev \<noteq> backslash then i else pos_of_first_quote_from (Suc i) c s)"

fun pos_of_first_quote :: "string \<Rightarrow> nat" where
  "pos_of_first_quote [] = 0"
| "pos_of_first_quote (c # s) = (if c = dquote then 0 else pos_of_first_quote_from 1 c s)"

text \<open>\<open>sanitize\<close>: keeps the characters of \<open>input\<close> that do not occur in \<open>charsToRemove\<close>.\<close>

definition sanitize :: "string \<Rightarrow> string \<Rightarrow> string" where
  "sanitize inp charsToRemove = filter (\<lambda>c. c \<notin> set charsToRemove) inp"

text \<open>
  The inner loop of \<open>processArgv\<close> (``remove beginning/end quotes''): a \<open>"\<close> is copied only
  when \<open>i > 0\<close> and the character before it is a backslash; every other character is copied.
\<close>

fun strip_quotes_from :: "char \<Rightarrow> string \<Rightarrow> string" where
  "strip_quotes_from prev [] = []"
| "strip_quotes_from prev (c # s) =
     (if c = dquote then
        (if prev = backslash then c # strip_quotes_from c s else strip_quotes_from c s)
      else c # strip_quotes_from c s)"

fun strip_quotes :: "string \<Rightarrow> string" where
  "strip_quotes [] = []"
| "strip_quotes (c # s) =
     (if c = dquote then strip_quotes_from c s else c # strip_quotes_from c s)"

text \<open>
  \<open>processArgv\<close>: the loop over \<open>argv\<close> carries \<open>quote_count\<close>, \<open>arg\<close> and
  \<open>processed_argv\<close>. A \<open>continue\<close> is the recursive call without a push; reaching the end
  of the body trims \<open>arg\<close> (the assignment \<open>arg = trim(arg)\<close> stays visible to later
  iterations), strips the quotes, removes the backslashes and pushes.
\<close>

definition finish_arg :: "string \<Rightarrow> string" where
  "finish_arg arg = sanitize (strip_quotes (trim arg)) [backslash]"

fun processArgv_loop :: "string list \<Rightarrow> nat \<Rightarrow> string \<Rightarrow> string list \<Rightarrow> string list" where
  "processArgv_loop [] quote_count arg processed_argv = processed_argv"
| "processArgv_loop (a # argv) quote_count arg processed_argv =
     (if hasQuotes a then
        (let arg1 = (if quote_count = 0 then [] else arg);
             qc1 = quote_count + 1;
             arg2 = arg1 @ [CHR '' ''] @ a;
             q_pos = pos_of_first_quote a;
             qc2 = (if length a > 1 \<and> q_pos \<noteq> length a - 1
                       \<and> hasQuotes (drop (q_pos + 1) a) then qc1 + 1 else qc1)
         in if qc2 = 2
            then processArgv_loop argv 0 (trim arg2) (processed_argv @ [finish_arg arg2])
            else processArgv_loop argv qc2 arg2 processed_argv)
      else if quote_count mod 2 = 0
        then processArgv_loop argv quote_count (trim a) (processed_argv @ [finish_arg a])
        else processArgv_loop argv quote_count (arg @ [CHR '' ''] @ a) processed_argv)"

definition processArgv :: "string list \<Rightarrow> string list" where
  "processArgv argv = processArgv_loop argv 0 [] []"

section \<open>Pipeline builder (Input::inputToProcesses)\<close>

text \<open>
  \<open>p_vector.back()\<close> is modified in place. The vector is never empty when the loop body
  reaches \<open>back()\<close> (iteration \<open>i = 0\<close> pushes a process), so the empty case below is
  never taken.
\<close>

fun update_back :: "('a \<Rightarrow> 'a) \<Rightarrow> 'a list \<Rightarrow> 'a list" where
  "update_back f [] = []"
| "update_back f [x] = [f x]"
| "update_back f (x # y # xs) = x # update_back f (y # xs)"

text \<open>
  One iteration of the \<open>for\<close> loop for \<open>i > 0\<close>, with \<open>prev = processed_argv[i-1]\<close> and
  \<open>t = processed_argv[i]\<close>, in the order of the source's branches.
\<close>

definition inputToProcesses_step :: "string \<Rightarrow> string \<Rightarrow> Process list \<Rightarrow> Process list" where
  "inputToProcesses_step prev t p_vector =
     (if prev = ''|'' then p_vector @ [new_Process\<lparr>args := [t]\<rparr>]
      else if t \<noteq> ''<'' \<and> prev \<noteq> ''<'' \<and> t \<noteq> ''>'' \<and> prev \<noteq> ''>''
              \<and> t \<noteq> ''>>'' \<and> prev \<noteq> ''>>'' \<and> t \<noteq> ''e>'' \<and> prev \<noteq> ''e>''
              \<and> t \<noteq> ''e>>'' \<and> prev \<noteq> ''e>>''
        then (if t = ''|'' then update_back (\<lambda>p. p\<lparr>hasPipe := True\<rparr>) p_vector
              else if t \<noteq> ''&'' then update_back (\<lambda>p. p\<lparr>args := args p @ [t]\<rparr>) p_vector
              else p_vector)
        else p_vector)"

fun inputToProcesses_loop :: "string \<Rightarrow> string list \<Rightarrow> Process list \<Rightarrow> Process list" where
  "inputToProcesses_loop prev [] p_vector = p_vector"
| "inputToProcesses_loop prev (t # ts) p_vector =
     inputToProcesses_loop t ts (inputToProcesses_step prev t p_vector)"

text \<open>The loop from its first iteration (\<open>i == 0\<close>: a new process named by the first token).\<close>

definition processes_of_tokens :: "string list \<Rightarrow> Process list" where
  "processes_of_tokens processed_argv =
     (case processed_argv of
        [] \<Rightarrow> []
      | t # ts \<Rightarrow> inputToProcesses_loop t ts [new_Process\<lparr>args := [t]\<rparr>])"

definition inputToProcesses :: "string \<Rightarrow> Process list" where
  "inputToProcesses shell_input =
     (if length shell_input = 0 then []
      else processes_of_tokens (processArgv (stream_words shell_input)))"

text \<open>
  \<open>setSTDIN\<close>, \<open>setSTDOUT\<close>, \<open>setSTDERR\<close>: the first index \<open>i > 0\<close> whose predecessor
  is the operator gives the target (and the operator as its type); the default is the
  name of the standard descriptor, with an empty type.
\<close>

fun find_redirect :: "(string \<Rightarrow> bool) \<Rightarrow> string list \<Rightarrow> (string \<times> string) option" where
  "find_redirect is_op (x # y # zs) =
     (if is_op x then Some (x, y) else find_redirect is_op (y # zs))"
| "find_redirect is_op zs = None"

definition setSTDIN :: "string \<Rightarrow> string" where
  "setSTDIN shell_input =
     (case find_redirect (\<lambda>t. t = ''<'') (processArgv (stream_words shell_input)) of
        None \<Rightarrow> ''STDIN_FILENO'' | Some (ty, fd) \<Rightarrow> fd)"

definition setSTDOUT :: "string \<Rightarrow> string \<times> string" where
  "setSTDOUT shell_input =
     (case find_redirect (\<lambda>t. t = ''>>'' \<or> t = ''>'') (processArgv (stream_words shell_input)) of
        None \<Rightarrow> (''STDOUT_FILENO'', []) | Some (ty, fd) \<Rightarrow> (fd, ty))"

definition setSTDERR :: "string \<Rightarrow> string \<times> string" where
  "setSTDERR shell_input =
     (case find_redirect (\<lambda>t. t = ''e>'' \<or> t = ''e>>'') (processArgv (stream_words shell_input)) of
        None \<Rightarrow> (''STDERR_FILENO'', []) | Some (ty, fd) \<Rightarrow> (fd, ty))"

text \<open>
  The constructor \<open>Input::Input(string)\<close>. \<open>setShellInput\<close> trims with the two statements
  of \<open>trim\<close>. \<open>set_foreground\<close> reads \<open>shellInput[shellInput.size()-1]\<close>, which is out of
  range for an empty string: the constructor has no defined result then (\<open>None\<close>).
\<close>

definition Input_ctor :: "string \<Rightarrow> Input option" where
  "Input_ctor inp =
     (let si = trim inp in
      if si = [] then None
      else Some \<lparr>JID = -1,
                 foreground = (if last si = CHR ''&'' then False else True),
                 status = ''Running'',
                 shellInput = si,
                 processes = inputToProcesses si,
                 fd_STDIN = setSTDIN si,
                 fd_STDOUT = fst (setSTDOUT si),
                 type_STDOUT = snd (setSTDOUT si),
                 fd_STDERR = fst (setSTDERR si),
                 type_STDERR = snd (setSTDERR si)\<rparr>)"



section \<open>Validator and quote counting (1730sh.cpp)\<close>

text \<open>
  \<open>isValidInput\<close>. After the length test the source reads \<open>argv[0]\<close> without checking
  that the stream produced a word; for a non-empty line of whitespace only (for example a
  single form feed or carriage return, which \<open>trim\<close> keeps) that read is out of range and
  the function has no defined result (\<open>None\<close>).
\<close>

text \<open>
  One iteration of the validator's loop: \<open>None\<close> is \<open>return false\<close>, otherwise the three
  flags after the iteration.
\<close>

definition isValidInput_step ::
  "string \<Rightarrow> bool \<Rightarrow> bool \<Rightarrow> bool \<Rightarrow> (bool \<times> bool \<times> bool) option" where
  "isValidInput_step a redirect_in_flag redirect_out_flag redirect_err_flag =
     (if a = ''<'' then
        (if \<not> redirect_in_flag
         then Some (True, redirect_out_flag, redirect_err_flag) else None)
      else if a = ''>'' \<or> a = ''>>'' then
        (if \<not> redirect_out_flag
         then Some (redirect_in_flag, True, redirect_err_flag) else None)
      else if a = ''e>'' \<or> a = ''e>>'' then
        (if \<not> redirect_err_flag
         then Some (redirect_in_flag, redirect_out_flag, True) else None)
      else Some (redirect_in_flag, redirect_out_flag, redirect_err_flag))"

fun isValidInput_loop :: "string list \<Rightarrow> bool \<Rightarrow> bool \<Rightarrow> bool \<Rightarrow> bool" where
  "isValidInput_loop [] redirect_in_flag redirect_out_flag redirect_err_flag = True"
| "isValidInput_loop (a # argv) redirect_in_flag redirect_out_flag redirect_err_flag =
     (case isValidInput_step a redirect_in_flag redirect_out_flag redirect_err_flag of
        None \<Rightarrow> False
      | Some (fi, fo, fe) \<Rightarrow> isValidInput_loop argv fi fo fe)"

definition isValidInput :: "string \<Rightarrow> bool option" where
  "isValidInput inp =
     (if length inp = 0 then Some True
      else (case stream_words inp of
              [] \<Rightarrow> None
            | a0 # rest \<Rightarrow>
                if a0 = ''|'' then Some False
                else Some (isValidInput_loop (a0 # rest) False False False)))"

text \<open>
  \<open>hasEvenQuotes\<close>: counts the \<open>"\<close> at index 0 and every later \<open>"\<close> whose predecessor is
  not a backslash, and tests the count modulo 2.
\<close>

fun count_quotes_from :: "char \<Rightarrow> string \<Rightarrow> int \<Rightarrow> int" where
  "count_quotes_from prev [] count = count"
| "count_quotes_from prev (c # s) count =
     count_quotes_from c s (if c = dquote \<and> prev \<noteq> backslash then count + 1 else count)"

fun count_quotes :: "string \<Rightarrow> int" where
  "count_quotes [] = 0"
| "count_quotes (c # s) = count_quotes_from c s (if c = dquote then 1 else 0)"

definition hasEvenQuotes :: "string \<Rightarrow> bool" where
  "hasEvenQuotes inp = (if count_quotes inp mod 2 = 0 then True else False)"

section \<open>The shell process and its environment\<close>

text \<open>
  The shell runs in one process. Its globals (\<open>last_exit_status\<close>, \<open>current_jobs\<close>), the
  \<open>Input\<close> objects it allocates with \<open>new\<close>, and the part of the operating system it acts
  on (its descriptor table and the files named by redirections) make up the state
  \<open>shell\<close>. What it writes to \<open>cout\<close> and the \<open>open\<close> calls it makes are logged, in
  order, in \<open>trace\<close>.
\<close>

datatype oflag = O_RDONLY | O_WRONLY | O_CREAT | O_TRUNC | O_APPEND

datatype target = Terminal | File string

record ofd =
  target :: target
  oflags :: "oflag list"

record fnode =
  fmode :: nat
  fdata :: string

datatype event =
    Cout string
  | Open string "oflag list" nat int

record shell =
  last_exit_status :: int
  current_jobs :: "nat option list"
  heap :: "nat \<Rightarrow> Input option"
  next_addr :: nat
  fdtab :: "ofd option list"
  files :: "string \<Rightarrow> fnode option"
  permitted :: "string \<Rightarrow> oflag list \<Rightarrow> bool"
  cwd :: string
  homedir :: string
  trace :: "event list"

text \<open>
  The locals of \<open>main\<close> that live across iterations of the read-eval loop. The built-ins
  cannot reach them.
\<close>

record repl_locals =
  input :: string
  hangingPipe :: bool
  hangingQuote :: bool

text \<open>
  How control leaves the embedded part of an iteration: \<open>Continue\<close> is the next iteration
  of \<open>while(1)\<close> (a \<open>continue\<close> statement, or the end of the loop body); \<open>Exit c\<close> is a
  call of \<open>exit(c)\<close>; \<open>ForkExec job in out err\<close> is the entry into the code that forks
  (lines 397 to 468 of 1730sh.cpp: every \<open>fork\<close> of the program is there), with the job's
  address and the three resolved descriptors; \<open>Undefined\<close> is behaviour the language leaves
  undefined (an out-of-range read, a second \<open>delete\<close> of the same object).
\<close>

datatype outcome = Continue | Exit int | ForkExec nat int int int | Undefined

abbreviation (input) EXIT_SUCCESS :: int where "EXIT_SUCCESS \<equiv> 0"
abbreviation (input) EXIT_FAILURE :: int where "EXIT_FAILURE \<equiv> 1"
abbreviation (input) STDIN_FILENO :: int where "STDIN_FILENO \<equiv> 0"
abbreviation (input) STDOUT_FILENO :: int where "STDOUT_FILENO \<equiv> 1"
abbreviation (input) STDERR_FILENO :: int where "STDERR_FILENO \<equiv> 2"

text \<open>The octal modes \<open>0644\<close> and \<open>0666\<close>.\<close>

definition mode_0644 :: nat where "mode_0644 = 6 * 64 + 4 * 8 + 4"
definition mode_0666 :: nat where "mode_0666 = 6 * 64 + 6 * 8 + 6"

text \<open>\<open>cout << ... << endl\<close> and \<open>cout << ...\<close> without \<open>endl\<close>.\<close>

definition cout_text :: "string \<Rightarrow> shell \<Rightarrow> shell" where
  "cout_text txt s = s\<lparr>trace := trace s @ [Cout txt]\<rparr>"

definition cout_line :: "string \<Rightarrow> shell \<Rightarrow> shell" where
  "cout_line txt s = cout_text (txt @ [CHR 0x0A]) s"

subsection \<open>System calls\<close>

text \<open>
  The descriptor table is an array indexed by descriptor; a descriptor outside it, or
  holding \<open>None\<close>, is closed.
\<close>

definition fd_get :: "ofd option list \<Rightarrow> int \<Rightarrow> ofd option" where
  "fd_get tbl fd = (if fd < 0 \<or> nat fd \<ge> length tbl then None else tbl ! nat fd)"

definition fd_set :: "ofd option list \<Rightarrow> nat \<Rightarrow> ofd option \<Rightarrow> ofd option list" where
  "fd_set tbl fd v = (tbl @ replicate (Suc fd - length tbl) None)[fd := v]"

definition lowest_free :: "ofd option list \<Rightarrow> nat" where
  "lowest_free tbl = length (takeWhile (\<lambda>e. e \<noteq> None) tbl)"

text \<open>
  \<open>open(path, flags, mode)\<close>: succeeds when the file exists or \<open>O_CREAT\<close> is given, and
  the system grants the access (\<open>permitted\<close> stands for permissions, missing directories
  and resource limits). It returns the lowest closed descriptor; a missing file is created
  empty with the mode asked for (the process's umask is not modelled), \<open>O_TRUNC\<close> empties an
  existing file. Failure returns \<open>-1\<close>. The call and its result are logged.
\<close>

definition sys_open :: "string \<Rightarrow> oflag list \<Rightarrow> nat \<Rightarrow> shell \<Rightarrow> int \<times> shell" where
  "sys_open path flags mode s =
     (if (files s path \<noteq> None \<or> O_CREAT \<in> set flags) \<and> permitted s path flags then
        (let fd = lowest_free (fdtab s);
             fs' = (case files s path of
                      None \<Rightarrow> (files s)(path \<mapsto> \<lparr>fmode = mode, fdata = []\<rparr>)
                    | Some f \<Rightarrow> if O_TRUNC \<in> set flags
                                then (files s)(path \<mapsto> f\<lparr>fdata := []\<rparr>) else files s)
         in (int fd,
             s\<lparr>fdtab := fd_set (fdtab s) fd (Some \<lparr>target = File path, oflags = flags\<rparr>),
               files := fs',
               trace := trace s @ [Open path flags mode (int fd)]\<rparr>))
      else (-1, s\<lparr>trace := trace s @ [Open path flags mode (-1)]\<rparr>))"

text \<open>
  \<open>dup2(oldfd, newfd)\<close> fails on a closed \<open>oldfd\<close>, does nothing when both are equal,
  and otherwise makes \<open>newfd\<close> refer to what \<open>oldfd\<close> refers to. \<open>close(fd)\<close> fails on a
  closed descriptor.
\<close>

definition sys_dup2 :: "int \<Rightarrow> int \<Rightarrow> shell \<Rightarrow> int \<times> shell" where
  "sys_dup2 oldfd newfd s =
     (if fd_get (fdtab s) oldfd = None \<or> newfd < 0 then (-1, s)
      else if oldfd = newfd then (newfd, s)
      else (newfd, s\<lparr>fdtab := fd_set (fdtab s) (nat newfd) (fd_get (fdtab s) oldfd)\<rparr>))"

definition sys_close :: "int \<Rightarrow> shell \<Rightarrow> int \<times> shell" where
  "sys_close fd s =
     (if fd_get (fdtab s) fd = None then (-1, s)
      else (0, s\<lparr>fdtab := fd_set (fdtab s) (nat fd) None\<rparr>))"

subsection \<open>new and delete\<close>

text \<open>
  \<open>new Input(...)\<close> places the object at an address not in use (addresses are handed out
  in increasing order and not reused); \<open>delete\<close> of an address holding no object is
  undefined (\<open>None\<close>).
\<close>

definition new_Input :: "Input \<Rightarrow> shell \<Rightarrow> nat \<times> shell" where
  "new_Input job s =
     (next_addr s, s\<lparr>heap := (heap s)(next_addr s \<mapsto> job), next_addr := Suc (next_addr s)\<rparr>)"

definition delete_Input :: "nat \<Rightarrow> shell \<Rightarrow> shell option" where
  "delete_Input a s = (if heap s a = None then None else Some (s\<lparr>heap := (heap s)(a := None)\<rparr>))"

subsection \<open>Redirections (1730sh.cpp)\<close>

text \<open>
  \<open>set_redirects\<close>. Each of its three \<open>if\<close> blocks is a function of its own: the result
  says whether the block ended in \<open>return -1\<close>, and gives the descriptor variable and the
  state after the block. The reference parameters and the return value are the first four
  components of the result of \<open>set_redirects\<close>; a \<open>return -1\<close> leaves the later
  descriptors at the defaults assigned at the top.
\<close>

definition resolve_stdin :: "Input \<Rightarrow> shell \<Rightarrow> bool \<times> int \<times> shell" where
  "resolve_stdin job s =
     (if fd_STDIN job \<noteq> ''STDIN_FILENO'' then
        (let (fdSTDIN, s1) = sys_open (fd_STDIN job) [O_RDONLY] 0 s
         in if fdSTDIN = -1
            then (True, fdSTDIN,
                  cout_line (''1730sh: '' @ fd_STDIN job @ '': No such file or directory'') s1)
            else (False, fdSTDIN, s1))
      else (False, STDIN_FILENO, s))"

definition resolve_stdout :: "Input \<Rightarrow> shell \<Rightarrow> bool \<times> int \<times> shell" where
  "resolve_stdout job s =
     (if fd_STDOUT job \<noteq> ''STDOUT_FILENO'' then
        (let (fdSTDOUT, s1) =
               (if type_STDOUT job = ''>''
                then sys_open (fd_STDOUT job) [O_CREAT, O_WRONLY, O_TRUNC] mode_0644 s
                else sys_open (fd_STDOUT job) [O_CREAT, O_WRONLY, O_APPEND] mode_0666 s)
         in if fdSTDOUT = -1
            then (True, fdSTDOUT,
                  cout_line (''1730sh: `'' @ fd_STDOUT job @ [CHR 0x27] @ '' cannot be opened'') s1)
            else (False, fdSTDOUT, s1))
      else (False, STDOUT_FILENO, s))"

definition resolve_stderr :: "Input \<Rightarrow> shell \<Rightarrow> bool \<times> int \<times> shell" where
  "resolve_stderr job s =
     (if fd_STDERR job \<noteq> ''STDERR_FILENO'' then
        (let (fdSTDERR, s1) =
               (if type_STDERR job = ''e>''
                then sys_open (fd_STDERR job) [O_CREAT, O_WRONLY, O_TRUNC] mode_0644 s
                else sys_open (fd_STDERR job) [O_CREAT, O_WRONLY, O_APPEND] mode_0666 s)
         in if fdSTDERR = -1
            then (True, fdSTDERR,
                  cout_line (''1730sh: `'' @ fd_STDERR job @ [CHR 0x27] @ '' cannot be opened'') s1)
            else (False, fdSTDERR, s1))
      else (False, STDERR_FILENO, s))"

definition set_redirects :: "Input \<Rightarrow> shell \<Rightarrow> int \<times> int \<times> int \<times> int \<times> shell" where
  "set_redirects job s0 =
     (case resolve_stdin job s0 of (failed_in, fdSTDIN, s1) \<Rightarrow>
        if failed_in then (-1, fdSTDIN, STDOUT_FILENO, STDERR_FILENO, s1)
        else (case resolve_stdout job s1 of (failed_out, fdSTDOUT, s2) \<Rightarrow>
          if failed_out then (-1, fdSTDIN, fdSTDOUT, STDERR_FILENO, s2)
          else (case resolve_stderr job s2 of (failed_err, fdSTDERR, s3) \<Rightarrow>
            if failed_err then (-1, fdSTDIN, fdSTDOUT, fdSTDERR, s3)
            else (0, fdSTDIN, fdSTDOUT, fdSTDERR, s3))))"

text \<open>
  \<open>do_redirects\<close> and \<open>close_redirects\<close>. A failing \<open>dup2\<close> or \<open>close\<close> goes to
  \<open>nope_out\<close>, which ends the process with \<open>exit(EXIT_FAILURE)\<close>: the result is then
  \<open>Some EXIT_FAILURE\<close>, and \<open>None\<close> when the function returns.
\<close>

definition do_redirects :: "int \<Rightarrow> int \<Rightarrow> int \<Rightarrow> shell \<Rightarrow> int option \<times> shell" where
  "do_redirects fdin fdout fderr s0 =
     (let (r1, s1) = (if fdin \<ge> 0 then sys_dup2 fdin STDIN_FILENO s0 else (0, s0)) in
      if r1 = -1 then (Some EXIT_FAILURE, s1) else
      let (r2, s2) = (if fdout \<ge> 0 then sys_dup2 fdout STDOUT_FILENO s1 else (0, s1)) in
      if r2 = -1 then (Some EXIT_FAILURE, s2) else
      let (r3, s3) = (if fderr \<ge> 0 then sys_dup2 fderr STDERR_FILENO s2 else (0, s2)) in
      if r3 = -1 then (Some EXIT_FAILURE, s3) else (None, s3))"

definition close_redirects :: "int \<Rightarrow> int \<Rightarrow> int \<Rightarrow> shell \<Rightarrow> int option \<times> shell" where
  "close_redirects fdin fdout fderr s0 =
     (let (r1, s1) = (if fdin \<noteq> STDIN_FILENO then sys_close fdin s0 else (0, s0)) in
      if r1 = -1 then (Some EXIT_FAILURE, s1) else
      let (r2, s2) = (if fdout \<noteq> STDOUT_FILENO then sys_close fdout s1 else (0, s1)) in
      if r2 = -1 then (Some EXIT_FAILURE, s2) else
      let (r3, s3) = (if fderr \<noteq> STDERR_FILENO then sys_close fderr s2 else (0, s2)) in
      if r3 = -1 then (Some EXIT_FAILURE, s3) else (None, s3))"

section \<open>Built-ins (1730sh.cpp)\<close>

subsection \<open>Decimal numbers\<close>

text \<open>
  \<open>cout << n\<close> for an \<open>int\<close> prints its decimal numeral. \<open>isdigit\<close> is the test of the
  loops that set \<open>isNumber\<close>. \<open>stoi(str, 0, 10)\<close> is only ever called on a string that
  passed that loop, so it is modelled on digit strings: it throws \<open>invalid_argument\<close> on
  the empty string and \<open>out_of_range\<close> when the value does not fit an \<open>int\<close>.
\<close>

function show_nat :: "nat \<Rightarrow> string" where
  "show_nat n = (if n < 10 then [char_of (48 + n)]
                 else show_nat (n div 10) @ [char_of (48 + n mod 10)])"
  by pat_completeness auto
termination
  by (relation "measure id") auto

declare show_nat.simps [simp del]

definition show_int :: "int \<Rightarrow> string" where
  "show_int i = (if i < 0 then CHR ''-'' # show_nat (nat (- i)) else show_nat (nat i))"

definition isdigit :: "char \<Rightarrow> bool" where
  "isdigit c = (48 \<le> (of_char c :: nat) \<and> (of_char c :: nat) \<le> 57)"

fun isNumber_loop :: "string \<Rightarrow> bool" where
  "isNumber_loop [] = True"
| "isNumber_loop (c # s) = (if \<not> isdigit c then False else isNumber_loop s)"

datatype stoi_error = invalid_argument | out_of_range

definition INT_MAX :: int where "INT_MAX = 2147483647"

definition digits_value :: "string \<Rightarrow> int" where
  "digits_value str = foldl (\<lambda>a c. 10 * a + (int (of_char c) - 48)) 0 str"

definition stoi :: "string \<Rightarrow> stoi_error + int" where
  "stoi str =
     (if str = [] then Inl invalid_argument
      else if digits_value str > INT_MAX then Inl out_of_range
      else Inr (digits_value str))"

subsection \<open>exit and jobs\<close>

text \<open>\<open>exit_builtin\<close>: the status to exit with, \<open>-1\<close> for invalid syntax.\<close>

definition exit_builtin :: "string list \<Rightarrow> shell \<Rightarrow> int \<times> shell" where
  "exit_builtin argv s =
     (if length argv = 1 then
        (last_exit_status s,
         cout_line (''1730sh: Exited with status: '' @ show_int (last_exit_status s)) s)
      else if length argv = 2 then
        (if isNumber_loop (argv ! 1) then
           (case stoi (argv ! 1) of
              Inr v \<Rightarrow>
                (v, cout_line (''1730sh: Exited with status: '' @ show_int v) s)
            | Inl invalid_argument \<Rightarrow> (-1, cout_line ''1730sh: exit: Invalid exit value'' s)
            | Inl out_of_range \<Rightarrow> (-1, cout_line ''1730sh: exit: Invalid exit value'' s))
         else (-1, cout_line ''1730sh: exit: Invalid exit value'' s))
      else (-1, cout_line ''Usage: exit [N]'' s))"

text \<open>
  \<open>jobs_builtin\<close>: \<open>std::left << setw(w)\<close> pads the next item with spaces on the right
  to width \<open>w\<close>. Reading a job through a pointer to a deleted object is undefined.
\<close>

definition pad_right :: "nat \<Rightarrow> string \<Rightarrow> string" where
  "pad_right w str = str @ replicate (w - length str) (CHR '' '')"

fun jobs_loop :: "nat option list \<Rightarrow> shell \<Rightarrow> shell option" where
  "jobs_loop [] s = Some s"
| "jobs_loop (None # js) s = jobs_loop js s"
| "jobs_loop (Some a # js) s =
     (case heap s a of
        None \<Rightarrow> None
      | Some job \<Rightarrow>
          jobs_loop js
            (cout_line (pad_right 8 (show_int (JID job)) @ pad_right 13 (status job)
                          @ shellInput job) s))"

definition jobs_builtin :: "string list \<Rightarrow> shell \<Rightarrow> (int \<times> shell) option" where
  "jobs_builtin argv s =
     (if length argv \<noteq> 1 then Some (-1, cout_line ''1730sh: Usage: jobs'' s)
      else (case jobs_loop (current_jobs s)
                   (cout_line (pad_right 8 ''JID'' @ pad_right 13 ''STATUS'' @ ''COMMAND'') s) of
              None \<Rightarrow> None
            | Some s1 \<Rightarrow> Some (0, s1)))"

subsection \<open>Dispatch\<close>

definition isBuiltIn :: "string \<Rightarrow> bool" where
  "isBuiltIn command =
     (if command = ''cd'' then True
      else if command = ''exit'' then True
      else if command = ''help'' then True
      else if command = ''bg'' then True
      else if command = ''fg'' then True
      else if command = ''export'' then True
      else if command = ''jobs'' then True
      else if command = ''kill'' then True
      else False)"

text \<open>
  The loop of the \<open>exit\<close> branch: \<open>if(current_jobs[i] != nullptr) delete current_jobs[i];
  current_jobs[i] = nullptr;\<close> for every index.
\<close>

fun delete_all :: "nat option list \<Rightarrow> shell \<Rightarrow> shell option" where
  "delete_all [] s = Some s"
| "delete_all (None # js) s = delete_all js s"
| "delete_all (Some a # js) s =
     (case delete_Input a s of None \<Rightarrow> None | Some s1 \<Rightarrow> delete_all js s1)"

text \<open>
  The end of a branch other than \<open>exit\<close>: the built-in's return value sets
  \<open>last_exit_status\<close>, then the final \<open>delete job\<close> runs and control returns to \<open>main\<close>.
\<close>

definition builtin_done :: "nat \<Rightarrow> int \<times> shell \<Rightarrow> outcome \<times> shell" where
  "builtin_done job rs =
     (let s1 = (snd rs)\<lparr>last_exit_status := (if fst rs = -1 then EXIT_FAILURE else EXIT_SUCCESS)\<rparr>
      in case delete_Input job s1 of
           None \<Rightarrow> (Undefined, s1)
         | Some s2 \<Rightarrow> (Continue, s2))"

text \<open>
  \<open>callBuiltIn\<close>. The bodies of \<open>cd\<close>, \<open>help\<close>, \<open>bg\<close>, \<open>fg\<close>, \<open>export\<close> and \<open>kill\<close> act on
  parts of the process (working directory, environment, signals, terminal) beyond the
  state above; they are the parameter \<open>others\<close>, from the command name and argv to the
  return value and the new state. In the \<open>exit\<close> branch the job is deleted, then either
  the job table is freed and the process exits, or control falls through to the
  \<open>delete job\<close> that ends the function.
\<close>

definition callBuiltIn ::
  "(string \<Rightarrow> string list \<Rightarrow> shell \<Rightarrow> int \<times> shell) \<Rightarrow> string \<Rightarrow> string list \<Rightarrow> nat \<Rightarrow> shell
     \<Rightarrow> outcome \<times> shell" where
  "callBuiltIn others command argv job s =
     (if command = ''cd'' then builtin_done job (others ''cd'' argv s)
      else if command = ''exit'' then
        (let (stat, s1) = exit_builtin argv s;
             s2 = s1\<lparr>last_exit_status := (if stat \<noteq> -1 then stat else EXIT_FAILURE)\<rparr>
         in case delete_Input job s2 of
              None \<Rightarrow> (Undefined, s2)
            | Some s3 \<Rightarrow>
                if stat \<noteq> -1 then
                  (case delete_all (current_jobs s3) s3 of
                     None \<Rightarrow> (Undefined, s3)
                   | Some s4 \<Rightarrow>
                       (Exit stat, s4\<lparr>current_jobs := map (\<lambda>j. None) (current_jobs s4)\<rparr>))
                else
                  (case delete_Input job s3 of
                     None \<Rightarrow> (Undefined, s3)
                   | Some s4 \<Rightarrow> (Continue, s4)))
      else if command = ''help'' then builtin_done job (others ''help'' argv s)
      else if command = ''bg'' then builtin_done job (others ''bg'' argv s)
      else if command = ''fg'' then builtin_done job (others ''fg'' argv s)
      else if command = ''export'' then builtin_done job (others ''export'' argv s)
      else if command = ''jobs'' then
        (case jobs_builtin argv s of
           None \<Rightarrow> (Undefined, s)
         | Some rs \<Rightarrow> builtin_done job rs)
      else if command = ''kill'' then builtin_done job (others ''kill'' argv s)
      else (case delete_Input job s of None \<Rightarrow> (Undefined, s) | Some s1 \<Rightarrow> (Continue, s1)))"

section \<open>The read-eval loop (main)\<close>

text \<open>
  \<open>prompt()\<close> prints \<open>1730sh:\<close>, the working directory with the first occurrence of the
  home directory replaced by \<open>~\<close>, and \<open>$ \<close>. \<open>cwd\<close> and \<open>homedir\<close> are what \<open>getcwd\<close>
  and the lookup of \<open>HOME\<close> return.
\<close>

fun find_sub :: "string \<Rightarrow> string \<Rightarrow> nat option" where
  "find_sub [] pat = (if pat = [] then Some 0 else None)"
| "find_sub (c # s) pat =
     (if take (length pat) (c # s) = pat then Some 0 else map_option Suc (find_sub s pat))"

definition prompt :: "shell \<Rightarrow> shell" where
  "prompt s =
     (let p = (case find_sub (cwd s) (homedir s) of
                 None \<Rightarrow> cwd s
               | Some pos \<Rightarrow> take pos (cwd s) @ ''~'' @ drop (pos + length (homedir s)) (cwd s))
      in cout_text (''1730sh:'' @ p @ ''$ '') s)"

text \<open>Lines 340 to 344: the primary prompt, or \<open>> \<close> while a pipe or a quote hangs.\<close>

definition show_prompt :: "repl_locals \<Rightarrow> shell \<Rightarrow> shell" where
  "show_prompt l s =
     (if \<not> hangingPipe l \<and> \<not> hangingQuote l then prompt s else cout_text ''> '' s)"

text \<open>Lines 347 to 360, with \<open>line\<close> what \<open>getline\<close> read.\<close>

definition read_input :: "repl_locals \<Rightarrow> string \<Rightarrow> repl_locals" where
  "read_input l line =
     (if \<not> hangingPipe l \<and> \<not> hangingQuote l then l\<lparr>input := trim line\<rparr>
      else (let tmp = trim line in
            if hangingQuote l then l\<lparr>input := input l @ tmp\<rparr>
            else if hangingPipe l then l\<lparr>input := input l @ '' '' @ tmp\<rparr>
            else l))"

text \<open>
  Lines 379 to 396: the job is built and allocated, the redirections are resolved, and
  either the launch is abandoned, or a single built-in runs in the shell itself, or
  control enters the code that forks. (\<open>makePipes\<close> only allocates the array of pipe
  descriptors; it does not touch the state above.)
\<close>

definition run_job ::
  "(string \<Rightarrow> string list \<Rightarrow> shell \<Rightarrow> int \<times> shell) \<Rightarrow> string \<Rightarrow> shell \<Rightarrow> outcome \<times> shell" where
  "run_job others inp s =
     (case Input_ctor inp of
        None \<Rightarrow> (Undefined, s)
      | Some obj \<Rightarrow>
          (let (job, s1) = new_Input obj s;
               (rc, fd_in, fd_out, fd_err, s2) = set_redirects obj s1
           in if rc = -1 then
                (case delete_Input job s2 of
                   None \<Rightarrow> (Undefined, s2)
                 | Some s3 \<Rightarrow> (Continue, s3))
              else if length (processes obj) = 1 then
                (case args (processes obj ! 0) of
                   [] \<Rightarrow> (Undefined, s2)
                 | command # rest \<Rightarrow>
                     if isBuiltIn command then
                       (case do_redirects fd_in fd_out fd_err s2 of
                          (Some c, s3) \<Rightarrow> (Exit c, s3)
                        | (None, s3) \<Rightarrow>
                            (case close_redirects fd_in fd_out fd_err s3 of
                               (Some c, s4) \<Rightarrow> (Exit c, s4)
                             | (None, s4) \<Rightarrow>
                                 callBuiltIn others command (args (processes obj ! 0)) job s4))
                     else (ForkExec job fd_in fd_out fd_err, s2))
              else (ForkExec job fd_in fd_out fd_err, s2)))"

text \<open>Lines 362 to 472: the body of the loop after the line has been read.\<close>

definition repl_body ::
  "(string \<Rightarrow> string list \<Rightarrow> shell \<Rightarrow> int \<times> shell) \<Rightarrow> repl_locals \<Rightarrow> shell
     \<Rightarrow> outcome \<times> repl_locals \<times> shell" where
  "repl_body others l s =
     (if input l = [] then (Continue, l, s)
      else (case isValidInput (input l) of
              None \<Rightarrow> (Undefined, l, s)
            | Some False \<Rightarrow> (Continue, l, cout_line ''./1730sh: Invalid command syntax'' s)
            | Some True \<Rightarrow>
                if hasQuotes (input l) \<and> \<not> hasEvenQuotes (input l)
                then (Continue, l\<lparr>hangingQuote := True\<rparr>, s)
                else if last (input l) = CHR ''|''
                then (Continue, l\<lparr>hangingQuote := False, hangingPipe := True\<rparr>, s)
                else (let (out, s1) = run_job others (input l) s
                      in (out, l\<lparr>hangingQuote := False, hangingPipe := False\<rparr>, s1))))"

text \<open>One iteration from the prompt on, given the line the user enters.\<close>

definition repl_iteration ::
  "(string \<Rightarrow> string list \<Rightarrow> shell \<Rightarrow> int \<times> shell) \<Rightarrow> string \<Rightarrow> repl_locals \<Rightarrow> shell
     \<Rightarrow> outcome \<times> repl_locals \<times> shell" where
  "repl_iteration others line l s = repl_body others (read_input l line) (show_prompt l s)"

text \<open>A shell right after start-up, in a system that grants every access.\<close>

definition fresh_locals :: repl_locals where
  "fresh_locals = \<lparr>input = [], hangingPipe = False, hangingQuote = False\<rparr>"

definition fresh_shell :: shell where
  "fresh_shell =
     \<lparr>last_exit_status = EXIT_SUCCESS, current_jobs = [], heap = (\<lambda>a. None), next_addr = 0,
      fdtab = [Some \<lparr>target = Terminal, oflags = [O_RDONLY]\<rparr>,
               Some \<lparr>target = Terminal, oflags = [O_WRONLY]\<rparr>,
               Some \<lparr>target = Terminal, oflags = [O_WRONLY]\<rparr>],
      files = (\<lambda>p. None), permitted = (\<lambda>p f. True),
      cwd = ''/home/user'', homedir = ''/home/user'', trace = []\<rparr>"

section \<open>Vocabulary of the claims\<close>

text \<open>The five redirection operators.\<close>

definition redirect_op :: "string \<Rightarrow> bool" where
  "redirect_op t = (t \<in> set [''<'', ''>'', ''>>'', ''e>'', ''e>>''])"



text \<open>
  Which token occurrences the builder appends to an argv, by the occurrence's token \<open>t\<close>
  and its predecessor (\<open>None\<close> for the first token of the line): the first token of the
  line, every token right after a \<open>|\<close>, and any other token that is neither a redirection
  operator, nor the token after one, nor \<open>|\<close>, nor \<open>&\<close>.
\<close>

fun appended :: "string option \<Rightarrow> string \<Rightarrow> bool" where
  "appended None t = True"
| "appended (Some prev) t =
     (prev = ''|'' \<or> (\<not> redirect_op prev \<and> \<not> redirect_op t \<and> t \<noteq> ''|'' \<and> t \<noteq> ''&''))"









text \<open>
  A stand-in for the built-ins that are not embedded, for evaluating the loop on lines that
  do not call them.
\<close>

definition no_others :: "string \<Rightarrow> string list \<Rightarrow> shell \<Rightarrow> int \<times> shell" where
  "no_others command argv s = (0, s)"

section \<open>Properties of trim\<close>

lemma find_last_not_of_less:
  "find_last_not_of s cs = Some i \<Longrightarrow> i < length s"
  by (induction s arbitrary: i) (auto split: option.splits if_splits)

lemma find_first_not_of_less:
  "find_first_not_of s cs = Some i \<Longrightarrow> i < length s"
  by (induction s arbitrary: i) (auto split: if_splits)

lemma drop_find_first:
  "drop (case find_first_not_of s cs of None \<Rightarrow> length s | Some i \<Rightarrow> i) s
     = dropWhile (\<lambda>c. c \<in> set cs) s"
  by (induction s) (auto split: option.splits)

lemma find_last_None_iff:
  "find_last_not_of s cs = None \<longleftrightarrow> (\<forall>c \<in> set s. c \<in> set cs)"
  by (induction s) (auto split: option.splits)

lemma take_find_last:
  "take (case find_last_not_of s cs of None \<Rightarrow> 0 | Some i \<Rightarrow> i + 1) s
     = rev (dropWhile (\<lambda>c. c \<in> set cs) (rev s))"
proof (induction s)
  case Nil
  then show ?case by simp
next
  case (Cons c s)
  show ?case
  proof (cases "find_last_not_of s cs")
    case None
    then have all: "\<forall>x \<in> set s. x \<in> set cs"
      by (simp add: find_last_None_iff)
    have "dropWhile (\<lambda>c. c \<in> set cs) (rev s @ [c]) = dropWhile (\<lambda>c. c \<in> set cs) [c]"
      by (rule dropWhile_append2) (use all in simp)
    with None show ?thesis by simp
  next
    case (Some i)
    then have "\<not> (\<forall>x \<in> set s. x \<in> set cs)"
      using find_last_None_iff [of s cs] by simp
    then obtain x where "x \<in> set (rev s)" "x \<notin> set cs" by auto
    then have "dropWhile (\<lambda>c. c \<in> set cs) (rev s @ [c])
                 = dropWhile (\<lambda>c. c \<in> set cs) (rev s) @ [c]"
      by (simp add: dropWhile_append1)
    with Some Cons.IH show ?thesis by simp
  qed
qed

lemma trim_dropWhile:
  "trim s = dropWhile (\<lambda>c. c \<in> set ws) (rev (dropWhile (\<lambda>c. c \<in> set ws) (rev s)))"
  unfolding trim_def Let_def
  by (simp only: take_find_last drop_find_first)

lemma trim_hd: "trim s \<noteq> [] \<Longrightarrow> hd (trim s) \<notin> set ws"
  unfolding trim_dropWhile by (rule hd_dropWhile)

lemma rev_dropWhile_last:
  "dropWhile P (rev s) \<noteq> [] \<Longrightarrow> \<not> P (last (rev (dropWhile P (rev s))))"
  by (metis hd_dropWhile last_rev rev_rev_ident)

lemma dropWhile_keeps_last:
  "dropWhile P xs \<noteq> [] \<Longrightarrow> last (dropWhile P xs) = last xs"
  by (induction xs) (auto split: if_splits)

lemma trim_last: "trim s \<noteq> [] \<Longrightarrow> last (trim s) \<notin> set ws"
proof -
  assume ne: "trim s \<noteq> []"
  let ?P = "\<lambda>c. c \<in> set ws"
  define m where "m = rev (dropWhile ?P (rev s))"
  from ne have d: "dropWhile ?P m \<noteq> []" by (simp add: trim_dropWhile m_def)
  then have "m \<noteq> []" by (cases m) simp_all
  then have "dropWhile ?P (rev s) \<noteq> []" by (simp add: m_def)
  then have "\<not> ?P (last m)" unfolding m_def by (rule rev_dropWhile_last)
  moreover have "last (trim s) = last m"
    using d by (simp add: trim_dropWhile m_def [symmetric] dropWhile_keeps_last)
  ultimately show ?thesis by simp
qed

lemma trim_fixed:
  assumes "s = [] \<or> (hd s \<notin> set ws \<and> last s \<notin> set ws)"
  shows "trim s = s"
proof (cases "s = []")
  case True
  then show ?thesis by (simp add: trim_dropWhile)
next
  case False
  with assms have h: "hd s \<notin> set ws" and l: "last s \<notin> set ws" by auto
  from False l have "hd (rev s) \<notin> set ws" by (simp add: hd_rev)
  with False have "dropWhile (\<lambda>c. c \<in> set ws) (rev s) = rev s"
    by (cases "rev s") auto
  moreover from False h have "dropWhile (\<lambda>c. c \<in> set ws) s = s"
    by (cases s) auto
  ultimately show ?thesis by (simp add: trim_dropWhile)
qed

lemma trim_all_ws: "set s \<subseteq> set ws \<Longrightarrow> trim s = []"
proof -
  assume "set s \<subseteq> set ws"
  then have "\<forall>x \<in> set (rev s). x \<in> set ws" by auto
  then have "dropWhile (\<lambda>c. c \<in> set ws) (rev s) = []"
    by (simp only: dropWhile_eq_Nil_conv)
  then show ?thesis by (simp only: trim_dropWhile rev.simps dropWhile.simps)
qed

section \<open>Properties of the pipeline builder\<close>

lemma update_back_snoc: "ps \<noteq> [] \<Longrightarrow> update_back f ps = butlast ps @ [f (last ps)]"
  by (induction f ps rule: update_back.induct) auto

lemma map_last_split: "ps \<noteq> [] \<Longrightarrow> map f ps = map f (butlast ps) @ [f (last ps)]"
  by (induction ps) auto

lemma step_nonempty: "ps \<noteq> [] \<Longrightarrow> inputToProcesses_step prev t ps \<noteq> []"
  by (simp add: inputToProcesses_step_def update_back_snoc)

lemma step_cases:
  assumes "ps \<noteq> []"
  shows "inputToProcesses_step prev t ps =
     (if prev = ''|'' then ps @ [new_Process\<lparr>args := [t]\<rparr>]
      else if redirect_op prev \<or> redirect_op t \<or> t = ''&'' then ps
      else if t = ''|'' then butlast ps @ [(last ps)\<lparr>hasPipe := True\<rparr>]
      else butlast ps @ [(last ps)\<lparr>args := args (last ps) @ [t]\<rparr>])"
  using assms
  by (auto simp: inputToProcesses_step_def update_back_snoc redirect_op_def)




lemma step_args:
  assumes "ps \<noteq> []"
  shows "concat (map args (inputToProcesses_step prev t ps)) =
           concat (map args ps) @ (if appended (Some prev) t then [t] else [])"
proof -
  have c: "concat (map args ps) = concat (map args (butlast ps)) @ args (last ps)"
    using map_last_split [OF assms, of args] by simp
  have r: "\<not> redirect_op ''|''" by (simp add: redirect_op_def)
  show ?thesis
    using assms c r by (auto simp: step_cases new_Process_def)
qed

lemma loop_args:
  "ps \<noteq> [] \<Longrightarrow>
   concat (map args (inputToProcesses_loop prev ts ps)) =
     concat (map args ps)
       @ map snd (filter (\<lambda>(p, t). appended p t) (zip (map Some (prev # ts)) ts))"
proof (induction ts arbitrary: prev ps)
  case Nil
  then show ?case by simp
next
  case (Cons t ts)
  let ?ps' = "inputToProcesses_step prev t ps"
  have "concat (map args (inputToProcesses_loop t ts ?ps')) =
          concat (map args ?ps')
            @ map snd (filter (\<lambda>(p, t). appended p t) (zip (map Some (t # ts)) ts))"
    by (rule Cons.IH [OF step_nonempty [OF Cons.prems]])
  then show ?case
    using step_args [OF Cons.prems, of prev t] by (simp del: appended.simps)
qed





section \<open>Properties of the validator\<close>

text \<open>
  On a line with at least one word the validator returns a value, and accepts exactly when
  the first word is not \<open>|\<close> and each of \<open><\<close>, \<open>>\<close> or \<open>>>\<close>, and \<open>e>\<close> or \<open>e>>\<close>
  occurs at most once among the words.
\<close>

lemma isValidInput_step_lt: "isValidInput_step ''<'' fi fo fe = (if fi then None else Some (True, fo, fe))"
  by (simp add: isValidInput_step_def)

lemma isValidInput_step_out: "a = ''>'' \<or> a = ''>>'' \<Longrightarrow>
  isValidInput_step a fi fo fe = (if fo then None else Some (fi, True, fe))"
  by (auto simp: isValidInput_step_def)

lemma isValidInput_step_err: "a = ''e>'' \<or> a = ''e>>'' \<Longrightarrow>
  isValidInput_step a fi fo fe = (if fe then None else Some (fi, fo, True))"
  by (auto simp: isValidInput_step_def)

lemma isValidInput_step_word: "a \<noteq> ''<'' \<Longrightarrow> \<not> (a = ''>'' \<or> a = ''>>'') \<Longrightarrow> \<not> (a = ''e>'' \<or> a = ''e>>'') \<Longrightarrow>
  isValidInput_step a fi fo fe = Some (fi, fo, fe)"
  by (simp add: isValidInput_step_def)


lemma isValidInput_loop_counts:
  "isValidInput_loop argv fi fo fe \<longleftrightarrow>
     (if fi then 1 else 0) + count_list argv ''<'' \<le> (1::nat)
     \<and> (if fo then 1 else 0) + length (filter (\<lambda>t. t = ''>'' \<or> t = ''>>'') argv) \<le> (1::nat)
     \<and> (if fe then 1 else 0) + length (filter (\<lambda>t. t = ''e>'' \<or> t = ''e>>'') argv) \<le> (1::nat)"
proof (induction argv arbitrary: fi fo fe)
  case Nil
  then show ?case by simp
next
  case (Cons a argv)
  have neq: "''<'' \<noteq> ''>''" "''<'' \<noteq> ''>>''" "''<'' \<noteq> ''e>''" "''<'' \<noteq> ''e>>''"
    "''>'' \<noteq> ''e>''" "''>'' \<noteq> ''e>>''" "''>>'' \<noteq> ''e>''" "''>>'' \<noteq> ''e>>''"
    by simp_all
  show ?case
  proof (cases "a = ''<''")
    case True
    have f: "\<not> (a = ''>'' \<or> a = ''>>'')" "\<not> (a = ''e>'' \<or> a = ''e>>'')"
      using True neq by simp_all
    show ?thesis
      using Cons.IH [of True fo fe] f
      by (simp only: isValidInput_loop.simps True isValidInput_step_lt count_list.simps filter.simps
            split: if_splits) auto
  next
    case nlt: False
    show ?thesis
    proof (cases "a = ''>'' \<or> a = ''>>''")
      case True
      have f: "\<not> (a = ''e>'' \<or> a = ''e>>'')" using True neq by auto
      show ?thesis
        using Cons.IH [of fi True fe] f nlt True
        by (simp only: isValidInput_loop.simps isValidInput_step_out [OF True] count_list.simps filter.simps
              split: if_splits) auto
    next
      case nout: False
      show ?thesis
      proof (cases "a = ''e>'' \<or> a = ''e>>''")
        case True
        show ?thesis
          using Cons.IH [of fi fo True] nlt nout True
          by (simp only: isValidInput_loop.simps isValidInput_step_err [OF True] count_list.simps filter.simps
                split: if_splits) auto
      next
        case False
        show ?thesis
          using Cons.IH [of fi fo fe] nlt nout False
          by (simp only: isValidInput_loop.simps isValidInput_step_word [OF nlt nout False] count_list.simps
                filter.simps split: if_splits) auto
      qed
    qed
  qed
qed


lemma stream_words_Nil: "stream_words [] = []"
  by (simp add: stream_words_def)

lemma isValidInput_words:
  assumes "stream_words inp = a # rest"
  shows "isValidInput inp =
     Some (a \<noteq> ''|''
           \<and> count_list (a # rest) ''<'' \<le> 1
           \<and> length (filter (\<lambda>t. t = ''>'' \<or> t = ''>>'') (a # rest)) \<le> 1
           \<and> length (filter (\<lambda>t. t = ''e>'' \<or> t = ''e>>'') (a # rest)) \<le> 1)"
proof -
  have ne: "length inp \<noteq> 0" using assms stream_words_Nil by (cases inp) simp_all
  have l: "isValidInput_loop (a # rest) False False False \<longleftrightarrow>
      count_list (a # rest) ''<'' \<le> 1
      \<and> length (filter (\<lambda>t. t = ''>'' \<or> t = ''>>'') (a # rest)) \<le> 1
      \<and> length (filter (\<lambda>t. t = ''e>'' \<or> t = ''e>>'') (a # rest)) \<le> 1"
    by (simp only: isValidInput_loop_counts if_False add_0)
  show ?thesis
    unfolding isValidInput_def assms list.case l using ne by (simp only: if_False) simp
qed

section \<open>Properties of quote counting\<close>












section \<open>Properties of the redirection resolver\<close>



lemma sys_open_result: "fst (sys_open p f m s) = -1 \<or> fst (sys_open p f m s) \<ge> 0"
  by (simp add: sys_open_def Let_def)
















section \<open>Properties of the exit built-in\<close>














section \<open>Claims\<close>

text \<open>
  Claim C9. Whenever \<open>isCompleted\<close> returns true for a job (every process has
  \<open>completed\<close> set), \<open>isStopped\<close> returns true for it as well (every process has
  \<open>stopped\<close> or \<open>completed\<close> set), whatever the flags of its processes are.
\<close>

theorem isCompleted_imp_isStopped:
  "isCompleted job \<Longrightarrow> isStopped job"
proof -
  have "isCompleted_loop ps \<Longrightarrow> isStopped_loop ps" for ps
    by (induction ps) (auto split: if_splits)
  then show "isCompleted job \<Longrightarrow> isStopped job"
    by (simp add: isCompleted_def isStopped_def)
qed

theorem isCompleted_imp_isStopped_witness:
  "isCompleted \<lparr>JID = 7, foreground = True, status = ''Done'', shellInput = ''ls | wc'',
       processes = [new_Process\<lparr>completed := True, hasPipe := True, args := [''ls'']\<rparr>,
                    new_Process\<lparr>completed := True, args := [''wc'']\<rparr>],
       fd_STDIN = ''STDIN_FILENO'', fd_STDOUT = ''STDOUT_FILENO'', type_STDOUT = '''',
       fd_STDERR = ''STDERR_FILENO'', type_STDERR = ''''\<rparr>
   \<and> isStopped \<lparr>JID = 7, foreground = True, status = ''Done'', shellInput = ''ls | wc'',
       processes = [new_Process\<lparr>completed := True, hasPipe := True, args := [''ls'']\<rparr>,
                    new_Process\<lparr>completed := True, args := [''wc'']\<rparr>],
       fd_STDIN = ''STDIN_FILENO'', fd_STDOUT = ''STDOUT_FILENO'', type_STDOUT = '''',
       fd_STDERR = ''STDERR_FILENO'', type_STDERR = ''''\<rparr>"
proof -
  let ?job = "\<lparr>JID = 7, foreground = True, status = ''Done'', shellInput = ''ls | wc'',
       processes = [new_Process\<lparr>completed := True, hasPipe := True, args := [''ls'']\<rparr>,
                    new_Process\<lparr>completed := True, args := [''wc'']\<rparr>],
       fd_STDIN = ''STDIN_FILENO'', fd_STDOUT = ''STDOUT_FILENO'', type_STDOUT = '''',
       fd_STDERR = ''STDERR_FILENO'', type_STDERR = ''''\<rparr>"
  have c: "isCompleted ?job"
    by (simp add: isCompleted_def new_Process_def)
  from c isCompleted_imp_isStopped [OF c] show ?thesis by simp
qed

text \<open>
  Claim C10. \<open>trim\<close> is idempotent; its result never begins or ends with a space or a
  tab; and a string made of spaces and tabs only (the empty string included) is trimmed
  to the empty string.
\<close>

theorem trim_idempotent_clean:
  "trim (trim s) = trim s
   \<and> (trim s = [] \<or> (hd (trim s) \<noteq> CHR '' '' \<and> hd (trim s) \<noteq> tab
                      \<and> last (trim s) \<noteq> CHR '' '' \<and> last (trim s) \<noteq> tab))
   \<and> (if set s \<subseteq> {CHR '' '', tab} then trim s = [] else trim s \<noteq> [])"
proof -
  have clean: "trim s = [] \<or> (hd (trim s) \<notin> set ws \<and> last (trim s) \<notin> set ws)"
    using trim_hd trim_last by blast
  then have idem: "trim (trim s) = trim s" by (rule trim_fixed)
  have ws_set: "set ws = {CHR '' '', tab}" by (auto simp: ws_def)
  have empty: "set s \<subseteq> set ws \<Longrightarrow> trim s = []" by (rule trim_all_ws)
  have nonempty: "trim s \<noteq> []" if "\<not> set s \<subseteq> set ws"
  proof -
    from that obtain x where x: "x \<in> set s" "x \<notin> set ws" by auto
    then have "x \<in> set (rev s)" by simp
    then have "dropWhile (\<lambda>c. c \<in> set ws) (rev s) \<noteq> []"
      using x(2) by (metis dropWhile_eq_Nil_conv)
    then obtain y ys where d: "dropWhile (\<lambda>c. c \<in> set ws) (rev s) = y # ys"
      by (cases "dropWhile (\<lambda>c. c \<in> set ws) (rev s)") auto
    then have "y \<notin> set ws" by (metis hd_dropWhile list.sel(1) list.distinct(1))
    then have "dropWhile (\<lambda>c. c \<in> set ws) (rev ys @ [y]) \<noteq> []"
      by (metis dropWhile_eq_Nil_conv in_set_conv_decomp)
    with d show ?thesis by (simp add: trim_dropWhile)
  qed
  from clean idem empty nonempty ws_set show ?thesis by auto
qed




text \<open>
  Claim C6, as amended. For every token sequence, the argv entries of the built processes
  are, in order, exactly the token occurrences selected by \<open>appended\<close>; an occurrence that
  immediately follows a redirection operator is never selected, and an occurrence of a
  redirection operator is never selected unless it is the first token of a partition (the
  first token of the line or the token right after a \<open>|\<close>), which always becomes
  \<open>argv[0]\<close>.
\<close>

theorem redirections_not_in_argv:
  "concat (map args (processes_of_tokens toks))
     = map snd (filter (\<lambda>(p, t). appended p t) (zip (None # map Some toks) toks))
   \<and> (\<forall>prev t. redirect_op prev \<longrightarrow> \<not> appended (Some prev) t)
   \<and> (\<forall>prev t. redirect_op t \<and> prev \<noteq> ''|'' \<longrightarrow> \<not> appended (Some prev) t)"
proof -
  have a: "concat (map args (processes_of_tokens toks))
     = map snd (filter (\<lambda>(p, t). appended p t) (zip (None # map Some toks) toks))"
  proof (cases toks)
    case Nil
    then show ?thesis by (simp add: processes_of_tokens_def)
  next
    case (Cons t ts)
    have "concat (map args (inputToProcesses_loop t ts [new_Process\<lparr>args := [t]\<rparr>])) =
            concat (map args [new_Process\<lparr>args := [t]\<rparr>])
              @ map snd (filter (\<lambda>(p, t). appended p t) (zip (map Some (t # ts)) ts))"
      by (rule loop_args) simp
    then show ?thesis by (simp add: Cons processes_of_tokens_def)
  qed
  have b: "\<not> redirect_op ''|''" by (simp add: redirect_op_def)
  from a b show ?thesis by auto
qed

theorem redirections_not_in_argv_witness:
  "concat (map args (processes_of_tokens
       [''cat'', ''<'', ''in'', ''-n'', ''|'', ''wc'', ''>'', ''out'', ''&'']))
     = [''cat'', ''-n'', ''wc'']
   \<and> redirect_op ''<'' \<and> \<not> appended (Some ''<'') ''in''
   \<and> redirect_op ''>'' \<and> ''wc'' \<noteq> ''|'' \<and> \<not> appended (Some ''wc'') ''>''"
proof -
  let ?T = "[''cat'', ''<'', ''in'', ''-n'', ''|'', ''wc'', ''>'', ''out'', ''&'']"
  note th = redirections_not_in_argv [of ?T]
  have r: "redirect_op ''<''" "redirect_op ''>''" by (simp_all add: redirect_op_def)
  have e: "map snd (filter (\<lambda>(p, t). appended p t) (zip (None # map Some ?T) ?T))
             = [''cat'', ''-n'', ''wc'']"
    by (simp add: redirect_op_def)
  from th r e show ?thesis by (simp del: appended.simps)
qed

text \<open>
  The claim as stated (operators never appended, a partition's first token included)
  fails: in the accepted line \<open>< in cat | > out\<close> both partitions start with an operator,
  and it becomes \<open>argv[0]\<close> of its process.
\<close>

theorem redirections_not_in_argv_counterexample:
  "isValidInput ''< in cat | > out'' = Some True
   \<and> map_option (map args \<circ> processes) (Input_ctor ''< in cat | > out'')
       = Some [[''<'', ''cat''], [''>'']]"
  by code_simp




text \<open>
  Claim C1 (the shell's own standard streams are unchanged after a redirected built-in
  returns) does not hold of the code: \<open>do_redirects\<close> duplicates the resolved descriptors
  onto descriptors 0, 1 and 2 of the shell itself, \<open>close_redirects\<close> closes the originals,
  and nothing saves or restores the previous targets. After \<open>jobs > out.txt\<close> in a fresh
  shell the iteration ends normally and descriptor 1 still refers to \<open>out.txt\<close>.
\<close>

theorem builtin_redirection_persists:
  "fst (repl_iteration no_others ''jobs > out.txt'' fresh_locals fresh_shell) = Continue
   \<and> map (map_option target) (fdtab fresh_shell) = [Some Terminal, Some Terminal, Some Terminal]
   \<and> map (map_option target)
        (fdtab (snd (snd (repl_iteration no_others ''jobs > out.txt'' fresh_locals fresh_shell))))
       = [Some Terminal, Some (File ''out.txt''), Some Terminal, None]"
  by code_simp

text \<open>
  Claim C3 (a line violating none of the constraints passes the validator; a rejected line
  is discarded) does not hold of the code in two places. A non-empty line of whitespace
  only, such as a single form feed, survives \<open>trim\<close> and yields no word; \<open>isValidInput\<close>
  then reads \<open>argv[0]\<close> of an empty vector: it returns no value, and the iteration has
  undefined behaviour. And a line rejected while a continuation is pending is not
  discarded: after \<open>ls |\<close>, the line \<open>< a < b\<close> is rejected, but \<open>hangingPipe\<close> stays set
  and the rejected text stays in \<open>input\<close>, so the next line is appended to it and rejected
  again.
\<close>

theorem validator_whitespace_line:
  "trim [CHR 0x0C] = [CHR 0x0C]
   \<and> stream_words [CHR 0x0C] = []
   \<and> isValidInput [CHR 0x0C] = None
   \<and> fst (repl_iteration no_others [CHR 0x0C] fresh_locals fresh_shell) = Undefined
   \<and> (let r1 = repl_iteration no_others ''ls |'' fresh_locals fresh_shell;
            r2 = repl_iteration no_others ''< a < b'' (fst (snd r1)) (snd (snd r1));
            r3 = repl_iteration no_others ''ls'' (fst (snd r2)) (snd (snd r2))
        in isValidInput ''ls | < a < b'' = Some False
           \<and> fst r2 = Continue
           \<and> fst (snd r2) = \<lparr>input = ''ls | < a < b'', hangingPipe = True, hangingQuote = False\<rparr>
           \<and> fst r3 = Continue
           \<and> fst (snd r3)
               = \<lparr>input = ''ls | < a < b ls'', hangingPipe = True, hangingQuote = False\<rparr>
           \<and> trace (snd (snd r3))
               = [Cout ''1730sh:~$ '', Cout ''> '',
                  Cout (''./1730sh: Invalid command syntax'' @ [CHR 0x0A]), Cout ''> '',
                  Cout (''./1730sh: Invalid command syntax'' @ [CHR 0x0A])])"
  by code_simp









end
